theory Spec2Isabelle
  imports Main
begin

section \<open>Attendance registration and reporting (ProyectoPF/Proyecto.py)\<close>

text \<open>
  The class \<^verbatim>\<open>SistemaRegistroAsistencia\<close> keeps a SQLite connection and an
  in-memory roster. The database is modelled by the contents of its tables, the
  connection by the database it is connected to, and every method by a function that
  takes the object and returns the object after the call together with what the user
  is told. The table \<^verbatim>\<open>asistencia\<close> is taken to exist, as the script
  \<^verbatim>\<open>cr.py\<close> and the \<^verbatim>\<open>CREATE TABLE IF NOT EXISTS\<close> of
  \<^verbatim>\<open>registrar_asistencia\<close> establish it; on an existing table that statement does nothing.
\<close>

subsection \<open>Text values\<close>

text \<open>
  Strings are UTF-8 byte sequences. SQLite compares \<^verbatim>\<open>TEXT\<close> values of the default
  collation byte by byte, a proper prefix being smaller; that order is the one of
  Python's code points.
\<close>

fun texto_le :: "string \<Rightarrow> string \<Rightarrow> bool" where
  "texto_le [] ys = True"
| "texto_le (x # xs) [] = False"
| "texto_le (x # xs) (y # ys) =
     (if x = y then texto_le xs ys else (of_char x :: nat) < of_char y)"

text \<open>\<^verbatim>\<open>x BETWEEN a AND b\<close> is \<^verbatim>\<open>x >= a AND x <= b\<close>.\<close>

definition sql_between :: "string \<Rightarrow> string \<Rightarrow> string \<Rightarrow> bool" where
  "sql_between x a b = (texto_le a x \<and> texto_le x b)"

text \<open>The two values the form offers for \<^verbatim>\<open>asistio\<close>; the first is "S" followed by
  the two bytes of i-acute.\<close>

definition Si :: string where
  "Si = [CHR ''S'', CHR 0xC3, CHR 0xAD]"

definition No :: string where
  "No = ''No''"

definition Otro_maestro :: string where
  "Otro_maestro = ''Otro maestro''"

subsection \<open>Dates\<close>

text \<open>
  \<^verbatim>\<open>st.date_input\<close> gives a \<^verbatim>\<open>datetime.date\<close>; its \<^verbatim>\<open>isoformat()\<close> is
  \<^verbatim>\<open>YYYY-MM-DD\<close>, zero padded. Python's dates have a year from 1 to 9999, a month from
  1 to 12 and a day from 1 to 31.
\<close>

record date =
  year :: nat
  month :: nat
  day :: nat

definition digit :: "nat \<Rightarrow> char" where
  "digit n = ''0123456789'' ! (n mod 10)"

definition isoformat :: "date \<Rightarrow> string" where
  "isoformat d =
     [digit (year d div 1000), digit (year d div 100), digit (year d div 10), digit (year d)]
     @ ''-'' @ [digit (month d div 10), digit (month d)]
     @ ''-'' @ [digit (day d div 10), digit (day d)]"

subsection \<open>The database\<close>

text \<open>A row of \<^verbatim>\<open>asistencia\<close>: the key the store assigns and the five inserted
  columns; \<^verbatim>\<open>carrera\<close> is \<^verbatim>\<open>NULL\<close> when the form says "No Aplica".\<close>

record fila_asistencia =
  id_asistencia :: nat
  profesor :: string
  materia :: string
  carrera :: "string option"
  fecha :: string
  asistio :: string

text \<open>
  The reference tables are lists of rows in \<^verbatim>\<open>rowid\<close> order, each row with its
  \<^verbatim>\<open>rowid\<close>; \<^verbatim>\<open>tabla_profesor_materia\<close> holds the pairs
  \<^verbatim>\<open>(profesor_id, materia_id)\<close>. \<^verbatim>\<open>secuencia\<close> is the largest key
  \<^verbatim>\<open>AUTOINCREMENT\<close> has handed out.
\<close>

record base_datos =
  tabla_profesores :: "(nat \<times> string) list"
  tabla_materias :: "(nat \<times> string) list"
  tabla_carreras :: "(nat \<times> string) list"
  tabla_profesor_materia :: "(nat \<times> nat) list"
  tabla_asistencia :: "fila_asistencia list"
  secuencia :: nat

subsection \<open>Python dictionaries\<close>

text \<open>A \<^verbatim>\<open>dict\<close> keeps its keys in insertion order; storing under a key that
  is present replaces the value where it stands.\<close>

fun dict_set :: "('k \<times> 'v) list \<Rightarrow> 'k \<Rightarrow> 'v \<Rightarrow> ('k \<times> 'v) list" where
  "dict_set [] k v = [(k, v)]"
| "dict_set ((k', v') # d) k v =
     (if k' = k then (k', v) # d else (k', v') # dict_set d k v)"

definition dict_of_rows :: "('k \<times> 'v) list \<Rightarrow> ('k \<times> 'v) list" where
  "dict_of_rows rows = foldl (\<lambda>d row. dict_set d (fst row) (snd row)) [] rows"

definition dict_get :: "('k \<times> 'v) list \<Rightarrow> 'k \<Rightarrow> 'v option" where
  "dict_get d k = map_of d k"

definition dict_keys :: "('k \<times> 'v) list \<Rightarrow> 'k list" where
  "dict_keys d = map fst d"

subsection \<open>The object and \<^verbatim>\<open>cargar_datos\<close>\<close>

record sistema =
  conn :: base_datos
  profesores :: "string list"
  materias :: "string list"
  carreras :: "string list"
  profesor_materia :: "(string \<times> string) list"

text \<open>
  The join of \<^verbatim>\<open>cargar_datos\<close>: for each row of \<^verbatim>\<open>profesor_materia\<close>, in its
  order, the names of the professor and of the subject with those \<^verbatim>\<open>rowid\<close>s.
\<close>

definition relacion_profesor_materia :: "base_datos \<Rightarrow> (string \<times> string) list" where
  "relacion_profesor_materia db =
     concat (map (\<lambda>pm.
       concat (map (\<lambda>p.
         map (\<lambda>m. (snd p, snd m))
           (filter (\<lambda>m. fst m = snd pm) (tabla_materias db)))
         (filter (\<lambda>p. fst p = fst pm) (tabla_profesores db))))
       (tabla_profesor_materia db))"

definition cargar_datos ::
  "base_datos \<Rightarrow> string list \<times> string list \<times> string list \<times> (string \<times> string) list" where
  "cargar_datos db =
     (let pm = dict_of_rows (relacion_profesor_materia db);
          ps = dict_keys pm;
          ms = map snd (tabla_materias db);
          cs = map snd (tabla_carreras db)
      in (ps, ms, cs, pm))"

text \<open>\<^verbatim>\<open>__init__\<close>: connect, then load the roster once.\<close>

definition init :: "base_datos \<Rightarrow> sistema" where
  "init db =
     (case cargar_datos db of (ps, ms, cs, pm) \<Rightarrow>
        \<lparr>conn = db, profesores = ps, materias = ms, carreras = cs, profesor_materia = pm\<rparr>)"

subsection \<open>\<^verbatim>\<open>registrar_asistencia\<close> and \<^verbatim>\<open>eliminar_registros\<close>\<close>

text \<open>The two \<^verbatim>\<open>st.error\<close> exits of \<^verbatim>\<open>registrar_asistencia\<close>, and the
  \<^verbatim>\<open>st.warning\<close> of a report without rows.\<close>

datatype error = UnknownProfessor | SubjectMismatch | EmptyResultSet

definition insert_asistencia ::
  "base_datos \<Rightarrow> string \<Rightarrow> string \<Rightarrow> string option \<Rightarrow> string \<Rightarrow> string \<Rightarrow> base_datos" where
  "insert_asistencia db p m c f a =
     db\<lparr>tabla_asistencia := tabla_asistencia db @
           [\<lparr>id_asistencia = Suc (secuencia db), profesor = p, materia = m,
             carrera = c, fecha = f, asistio = a\<rparr>],
        secuencia := Suc (secuencia db)\<rparr>"

text \<open>The statements after the validation: the insert and the commit.\<close>

definition registrar :: "sistema \<Rightarrow> string \<Rightarrow> string \<Rightarrow> string option \<Rightarrow> date \<Rightarrow> string \<Rightarrow> sistema" where
  "registrar s nombre_profesor m c f a =
     s\<lparr>conn := insert_asistencia (conn s) nombre_profesor m c (isoformat f) a\<rparr>"

definition registrar_asistencia ::
  "sistema \<Rightarrow> string \<Rightarrow> string \<Rightarrow> string option \<Rightarrow> date \<Rightarrow> string \<Rightarrow> (error + unit) \<times> sistema" where
  "registrar_asistencia s nombre_profesor m c f a =
     (if nombre_profesor \<noteq> Otro_maestro then
        (if nombre_profesor \<notin> set (profesores s) then (Inl UnknownProfessor, s)
         else if dict_get (profesor_materia s) nombre_profesor \<noteq> Some m
           then (Inl SubjectMismatch, s)
         else (Inr (), registrar s nombre_profesor m c f a))
      else (Inr (), registrar s nombre_profesor m c f a))"

definition eliminar_registros :: "sistema \<Rightarrow> sistema" where
  "eliminar_registros s = s\<lparr>conn := (conn s)\<lparr>tabla_asistencia := []\<rparr>\<rparr>"

subsection \<open>The queries of \<^verbatim>\<open>mostrar_reportes_detallados\<close>\<close>

text \<open>
  \<^verbatim>\<open>GROUP BY carrera, profesor, materia\<close>: one result row for each key that occurs
  among the selected rows (\<^verbatim>\<open>NULL\<close> programs form one group). SQL leaves the order
  of the result rows open; nothing below depends on it.
\<close>

type_synonym clave = "string option \<times> string \<times> string"

type_synonym registro = "string option \<times> string \<times> string \<times> nat \<times> nat \<times> nat"

definition clave_de :: "fila_asistencia \<Rightarrow> clave" where
  "clave_de r = (carrera r, profesor r, materia r)"

text \<open>\<^verbatim>\<open>SUM(CASE WHEN asistio = v THEN 1 ELSE 0 END)\<close> over a group.\<close>

definition suma_caso :: "string \<Rightarrow> fila_asistencia list \<Rightarrow> nat" where
  "suma_caso v g = sum_list (map (\<lambda>r. if asistio r = v then 1 else 0) g)"

definition grupo :: "clave \<Rightarrow> fila_asistencia list \<Rightarrow> fila_asistencia list" where
  "grupo k rs = filter (\<lambda>r. clave_de r = k) rs"

text \<open>The result row of the group with key \<open>k\<close>: the key, \<^verbatim>\<open>COUNT(*)\<close> and the two sums.\<close>

definition registro_de :: "fila_asistencia list \<Rightarrow> clave \<Rightarrow> registro" where
  "registro_de rs k =
     (case k of (c, p, m) \<Rightarrow>
        (c, p, m, length (grupo k rs), suma_caso Si (grupo k rs), suma_caso No (grupo k rs)))"

definition agrupar :: "fila_asistencia list \<Rightarrow> registro list" where
  "agrupar rs = map (registro_de rs) (remdups (map clave_de rs))"

definition consulta_profesor :: "base_datos \<Rightarrow> string \<Rightarrow> string \<Rightarrow> string \<Rightarrow> registro list" where
  "consulta_profesor db p inicio fin =
     agrupar (filter (\<lambda>r. profesor r = p \<and> sql_between (fecha r) inicio fin) (tabla_asistencia db))"

definition consulta_materia :: "base_datos \<Rightarrow> string \<Rightarrow> string \<Rightarrow> string \<Rightarrow> registro list" where
  "consulta_materia db m inicio fin =
     agrupar (filter (\<lambda>r. materia r = m \<and> sql_between (fecha r) inicio fin) (tabla_asistencia db))"

text \<open>
  The global statistics group by \<^verbatim>\<open>carrera\<close> alone. The rate
  \<^verbatim>\<open>ROUND(SUM(...) * 100.0 / COUNT(*), 2)\<close> is a floating-point value computed by SQLite;
  \<open>Tasa k n\<close> stands for it, with \<open>k\<close> the sum and \<open>n\<close> the count it is computed from.
\<close>

datatype tasa = Tasa nat nat

type_synonym estadistica = "string option \<times> nat \<times> tasa"

definition grupo_carrera :: "string option \<Rightarrow> fila_asistencia list \<Rightarrow> fila_asistencia list" where
  "grupo_carrera c rs = filter (\<lambda>r. carrera r = c) rs"

definition estadistica_de :: "fila_asistencia list \<Rightarrow> string option \<Rightarrow> estadistica" where
  "estadistica_de rs c =
     (c, length (grupo_carrera c rs),
      Tasa (suma_caso Si (grupo_carrera c rs)) (length (grupo_carrera c rs)))"

definition consulta_global :: "base_datos \<Rightarrow> estadistica list" where
  "consulta_global db =
     map (estadistica_de (tabla_asistencia db)) (remdups (map carrera (tabla_asistencia db)))"

subsection \<open>\<^verbatim>\<open>generar_reporte_pdf\<close> and the three report buttons\<close>

text \<open>
  A written document: title, subtitle, header cells and one list of cells for each row.
  A cell holds the value whose \<^verbatim>\<open>str()\<close> is printed. The files of the working
  directory are a map from names to documents.
\<close>

datatype valor = Nulo | Texto string | Entero nat | Flotante tasa

record documento =
  titulo :: string
  subtitulo :: string
  encabezados :: "string list"
  celdas :: "valor list list"

type_synonym archivos = "string \<Rightarrow> documento option"

definition generar_reporte_pdf ::
  "valor list list \<Rightarrow> string list \<Rightarrow> string \<Rightarrow> string \<Rightarrow> string \<Rightarrow> archivos \<Rightarrow> archivos" where
  "generar_reporte_pdf datos columnas fecha_inicio fecha_fin nombre_archivo fs =
     fs(nombre_archivo \<mapsto>
        \<lparr>titulo = ''Reporte de Asistencia'',
         subtitulo = ''Fecha de Inicio: '' @ fecha_inicio @ ''   Fecha de Fin: '' @ fecha_fin,
         encabezados = columnas,
         celdas = datos\<rparr>)"

definition valor_carrera :: "string option \<Rightarrow> valor" where
  "valor_carrera c = (case c of None \<Rightarrow> Nulo | Some t \<Rightarrow> Texto t)"

definition valores_registro :: "registro \<Rightarrow> valor list" where
  "valores_registro r =
     (case r of (c, p, m, n, k, j) \<Rightarrow>
        [valor_carrera c, Texto p, Texto m, Entero n, Entero k, Entero j])"

definition valores_estadistica :: "estadistica \<Rightarrow> valor list" where
  "valores_estadistica e =
     (case e of (c, n, t) \<Rightarrow> [valor_carrera c, Entero n, Flotante t])"

text \<open>
  Each button runs its query, then writes the document if there are rows and warns
  otherwise. The result is \<open>Inr\<close> of the written file's name (the \<^verbatim>\<open>st.success\<close>)
  or \<open>Inl EmptyResultSet\<close> (the \<^verbatim>\<open>st.warning\<close>), with the files afterwards.
\<close>

definition boton_reporte_profesor_pdf ::
  "sistema \<Rightarrow> string \<Rightarrow> date \<Rightarrow> date \<Rightarrow> archivos \<Rightarrow> (error + string) \<times> archivos" where
  "boton_reporte_profesor_pdf s profesor_seleccionado fecha_inicio fecha_fin fs =
     (let registros = consulta_profesor (conn s) profesor_seleccionado
                        (isoformat fecha_inicio) (isoformat fecha_fin)
      in if registros \<noteq> [] then
           (Inr ''reporte_asistencia_profesor.pdf'',
            generar_reporte_pdf (map valores_registro registros)
              [''Carrera'', ''Profesor'', ''Materia'', ''Total Clases'',
               ''Clases Impartidas'', ''Clases Perdidas'']
              (isoformat fecha_inicio) (isoformat fecha_fin)
              ''reporte_asistencia_profesor.pdf'' fs)
         else (Inl EmptyResultSet, fs))"

definition boton_reporte_materia_pdf ::
  "sistema \<Rightarrow> string \<Rightarrow> date \<Rightarrow> date \<Rightarrow> archivos \<Rightarrow> (error + string) \<times> archivos" where
  "boton_reporte_materia_pdf s materia_seleccionada fecha_inicio fecha_fin fs =
     (let registros = consulta_materia (conn s) materia_seleccionada
                        (isoformat fecha_inicio) (isoformat fecha_fin)
      in if registros \<noteq> [] then
           (Inr ''reporte_asistencia_materia.pdf'',
            generar_reporte_pdf (map valores_registro registros)
              [''Carrera'', ''Profesor'', ''Materia'', ''Total Clases'',
               ''Asistencias'', ''Inasistencias'']
              (isoformat fecha_inicio) (isoformat fecha_fin)
              ''reporte_asistencia_materia.pdf'' fs)
         else (Inl EmptyResultSet, fs))"

definition boton_reporte_carrera_pdf ::
  "sistema \<Rightarrow> archivos \<Rightarrow> (error + string) \<times> archivos" where
  "boton_reporte_carrera_pdf s fs =
     (let estadisticas = consulta_global (conn s)
      in if estadisticas \<noteq> [] then
           (Inr ''reporte_global_carrera.pdf'',
            generar_reporte_pdf (map valores_estadistica estadisticas)
              [''Carrera'', ''Total Clases'', ''Tasa de Cumplimiento (%)'']
              ''N/A'' ''N/A'' ''reporte_global_carrera.pdf'' fs)
         else (Inl EmptyResultSet, fs))"

subsection \<open>Reading a report\<close>

text \<open>
  What a reader takes from the rows of a report: the key of a row, its
  \<^verbatim>\<open>total_clases\<close>, and the three counts of the row with a given key, which are
  all zero when the report has no such row.
\<close>

definition clave_registro :: "registro \<Rightarrow> clave" where
  "clave_registro r = (case r of (c, p, m, n, k, j) \<Rightarrow> (c, p, m))"

definition total_clases :: "registro \<Rightarrow> nat" where
  "total_clases r = (case r of (c, p, m, n, k, j) \<Rightarrow> n)"

definition conteo :: "registro list \<Rightarrow> clave \<Rightarrow> nat \<times> nat \<times> nat" where
  "conteo rs k =
     (case find (\<lambda>r. clave_registro r = k) rs of
        None \<Rightarrow> (0, 0, 0)
      | Some (c, p, m, n, i, j) \<Rightarrow> (n, i, j))"

subsection \<open>Example data\<close>

text \<open>
  A database in which Dr. Smith is assigned Calculus and Dra. Ruiz first Physics and then
  Calculus; a database whose roster contains a professor with the name of the
  \<^verbatim>\<open>"Otro maestro"\<close> entry of the form; a date; and the object after one registration.
\<close>

definition db_ejemplo :: base_datos where
  "db_ejemplo =
     \<lparr>tabla_profesores = [(1, ''Dr. Smith''), (2, ''Dra. Ruiz'')],
      tabla_materias = [(1, ''Calculus''), (2, ''Physics'')],
      tabla_carreras = [(1, ''IAS'')],
      tabla_profesor_materia = [(1, 1), (2, 2), (2, 1)],
      tabla_asistencia = [],
      secuencia = 0\<rparr>"

definition db_centinela :: base_datos where
  "db_centinela =
     \<lparr>tabla_profesores = [(1, ''Otro maestro'')],
      tabla_materias = [(1, ''Calculus''), (2, ''Physics'')],
      tabla_carreras = [],
      tabla_profesor_materia = [(1, 1)],
      tabla_asistencia = [],
      secuencia = 0\<rparr>"

definition fecha_ejemplo :: date where
  "fecha_ejemplo = \<lparr>year = 2024, month = 1, day = 10\<rparr>"

definition sistema_registrado :: sistema where
  "sistema_registrado =
     snd (registrar_asistencia (init db_ejemplo) ''Dr. Smith'' ''Calculus'' None fecha_ejemplo Si)"

section \<open>Properties\<close>

subsection \<open>Text order and the two attendance values\<close>

lemma texto_le_refl: "texto_le x x"
  by (induction x) auto

lemma sql_between_refl: "sql_between x x x"
  by (simp add: sql_between_def texto_le_refl)

lemma Si_neq_No: "Si \<noteq> No"
  by (simp add: Si_def No_def)

subsection \<open>Grouping\<close>

lemma find_map_clave:
  assumes "\<And>k'. clave_registro (f k') = k'"
  shows "find (\<lambda>r. clave_registro r = k) (map f ks) = (if k \<in> set ks then Some (f k) else None)"
  using assms by (induction ks) auto

lemma grupo_empty: "k \<notin> set (map clave_de rs) \<Longrightarrow> grupo k rs = []"
  by (auto simp: grupo_def filter_empty_conv)

lemma grupo_snoc: "grupo k (rs @ [r]) = (if clave_de r = k then grupo k rs @ [r] else grupo k rs)"
  by (simp add: grupo_def)

lemma grupo_filter: "grupo k (filter P rs) = filter (\<lambda>r. clave_de r = k \<and> P r) rs"
  by (simp add: grupo_def conj_commute)

lemma suma_caso_Nil: "suma_caso v [] = 0"
  by (simp add: suma_caso_def)

lemma suma_caso_snoc: "suma_caso v (g @ [r]) = suma_caso v g + (if asistio r = v then 1 else 0)"
  by (simp add: suma_caso_def)

lemma clave_registro_de: "clave_registro (registro_de rs k) = k"
  by (cases k) (simp add: clave_registro_def registro_de_def)

lemma total_registro_de: "total_clases (registro_de rs k) = length (grupo k rs)"
  by (cases k) (simp add: total_clases_def registro_de_def)

lemma agrupar_Nil: "agrupar [] = []"
  by (simp add: agrupar_def)

lemma conteo_Nil: "conteo [] k = (0, 0, 0)"
  by (simp add: conteo_def)

text \<open>The counts read from the row of a key are the counts of that key's group.\<close>

lemma conteo_agrupar:
  "conteo (agrupar rs) k = (length (grupo k rs), suma_caso Si (grupo k rs), suma_caso No (grupo k rs))"
proof -
  have "find (\<lambda>r. clave_registro r = k) (map (registro_de rs) (remdups (map clave_de rs)))
        = (if k \<in> set (remdups (map clave_de rs)) then Some (registro_de rs k) else None)"
    by (rule find_map_clave) (rule clave_registro_de)
  then show ?thesis
    by (cases k) (auto simp: conteo_def agrupar_def registro_de_def grupo_empty suma_caso_Nil)
qed

lemma claves_agrupar: "map clave_registro (agrupar rs) = remdups (map clave_de rs)"
  by (simp add: agrupar_def comp_def clave_registro_de)

lemma distinct_claves_agrupar: "distinct (map clave_registro (agrupar rs))"
  by (simp add: claves_agrupar)

text \<open>Every row of the table lies in exactly one group.\<close>

lemma sum_grupos:
  "finite A \<Longrightarrow> f ` set xs \<subseteq> A \<Longrightarrow> (\<Sum>k\<in>A. length (filter (\<lambda>r. f r = k) xs)) = length xs"
proof (induction xs)
  case Nil
  then show ?case by simp
next
  case (Cons x xs)
  have "(\<Sum>k\<in>A. length (filter (\<lambda>r. f r = k) (x # xs)))
        = (\<Sum>k\<in>A. (if f x = k then 1 else 0) + length (filter (\<lambda>r. f r = k) xs))"
    by (rule sum.cong) auto
  also have "\<dots> = (\<Sum>k\<in>A. if f x = k then 1 else 0) + (\<Sum>k\<in>A. length (filter (\<lambda>r. f r = k) xs))"
    by (simp add: sum.distrib)
  also have "(\<Sum>k\<in>A. if f x = k then 1 else 0) = (1::nat)"
    using Cons.prems by (simp add: sum.delta')
  finally show ?case using Cons by simp
qed

lemma total_agrupar: "sum_list (map total_clases (agrupar rs)) = length rs"
proof -
  have "sum_list (map total_clases (agrupar rs))
        = sum_list (map (\<lambda>k. length (grupo k rs)) (remdups (map clave_de rs)))"
    by (simp add: agrupar_def comp_def total_registro_de)
  also have "\<dots> = (\<Sum>k\<in>set (map clave_de rs). length (grupo k rs))"
    by (simp add: sum_list_distinct_conv_sum_set)
  also have "\<dots> = length rs"
    unfolding grupo_def by (rule sum_grupos) auto
  finally show ?thesis .
qed

subsection \<open>The example data\<close>

lemma init_db_ejemplo:
  "init db_ejemplo =
     \<lparr>conn = db_ejemplo, profesores = [''Dr. Smith'', ''Dra. Ruiz''],
      materias = [''Calculus'', ''Physics''], carreras = [''IAS''],
      profesor_materia = [(''Dr. Smith'', ''Calculus''), (''Dra. Ruiz'', ''Calculus'')]\<rparr>"
  by (simp add: init_def cargar_datos_def relacion_profesor_materia_def dict_of_rows_def
      dict_keys_def db_ejemplo_def)

lemma init_db_centinela:
  "init db_centinela =
     \<lparr>conn = db_centinela, profesores = [''Otro maestro''],
      materias = [''Calculus'', ''Physics''], carreras = [],
      profesor_materia = [(''Otro maestro'', ''Calculus'')]\<rparr>"
  by (simp add: init_def cargar_datos_def relacion_profesor_materia_def dict_of_rows_def
      dict_keys_def db_centinela_def)

lemma tabla_db_ejemplo: "tabla_asistencia db_ejemplo = []"
  by (simp add: db_ejemplo_def)

subsection \<open>Registration\<close>

lemma tabla_registrar:
  "tabla_asistencia (conn (registrar s p m c d a)) =
     tabla_asistencia (conn s) @
       [\<lparr>id_asistencia = Suc (secuencia (conn s)), profesor = p, materia = m, carrera = c,
         fecha = isoformat d, asistio = a\<rparr>]"
  by (simp add: registrar_def insert_asistencia_def)

lemma registrar_ok:
  "p \<in> set (profesores s) \<Longrightarrow> dict_get (profesor_materia s) p = Some m \<Longrightarrow>
   registrar_asistencia s p m c d a = (Inr (), registrar s p m c d a)"
  by (simp add: registrar_asistencia_def)

text \<open>
  C1. If the professor is in the roster and the roster assigns the given subject to the
  professor, registering an attended class (the value \<open>Si\<close>) succeeds, and in the report of that
  professor from the date to the same date, the row of the record's program, professor
  and subject has one more class in total and one more class given, and as many classes
  missed as before (a missing row counting as zeros).
\<close>

theorem registrar_asistencia_incrementa:
  assumes "p \<in> set (profesores s)" and "dict_get (profesor_materia s) p = Some m"
  shows "fst (registrar_asistencia s p m c d Si) = Inr () \<and>
         conteo (consulta_profesor (conn (snd (registrar_asistencia s p m c d Si))) p
                   (isoformat d) (isoformat d)) (c, p, m)
         = (case conteo (consulta_profesor (conn s) p (isoformat d) (isoformat d)) (c, p, m) of
              (n, k, j) \<Rightarrow> (n + 1, k + 1, j))"
proof -
  have ok: "registrar_asistencia s p m c d Si = (Inr (), registrar s p m c d Si)"
    using assms by (rule registrar_ok)
  let ?sel = "\<lambda>r. profesor r = p \<and> sql_between (fecha r) (isoformat d) (isoformat d)"
  let ?r = "\<lparr>id_asistencia = Suc (secuencia (conn s)), profesor = p, materia = m, carrera = c,
         fecha = isoformat d, asistio = Si\<rparr>"
  have sel: "filter ?sel (tabla_asistencia (conn (registrar s p m c d Si)))
             = filter ?sel (tabla_asistencia (conn s)) @ [?r]"
    by (simp add: tabla_registrar sql_between_refl)
  have k: "clave_de ?r = (c, p, m)"
    by (simp add: clave_de_def)
  show ?thesis
    using Si_neq_No
    by (simp add: ok consulta_profesor_def sel conteo_agrupar grupo_snoc k suma_caso_snoc)
qed

theorem registrar_asistencia_incrementa_witness:
  "''Dr. Smith'' \<in> set (profesores (init db_ejemplo)) \<and>
   dict_get (profesor_materia (init db_ejemplo)) ''Dr. Smith'' = Some ''Calculus'' \<and>
   fst (registrar_asistencia (init db_ejemplo) ''Dr. Smith'' ''Calculus'' None fecha_ejemplo Si) = Inr () \<and>
   conteo (consulta_profesor
             (conn (snd (registrar_asistencia (init db_ejemplo) ''Dr. Smith'' ''Calculus'' None
                           fecha_ejemplo Si)))
             ''Dr. Smith'' (isoformat fecha_ejemplo) (isoformat fecha_ejemplo))
      (None, ''Dr. Smith'', ''Calculus'') = (1, 1, 0)"
proof -
  have h1: "''Dr. Smith'' \<in> set (profesores (init db_ejemplo))"
    by (simp add: init_db_ejemplo)
  have h2: "dict_get (profesor_materia (init db_ejemplo)) ''Dr. Smith'' = Some ''Calculus''"
    by (simp add: init_db_ejemplo dict_get_def)
  have h3: "conteo (consulta_profesor (conn (init db_ejemplo)) ''Dr. Smith''
              (isoformat fecha_ejemplo) (isoformat fecha_ejemplo)) (None, ''Dr. Smith'', ''Calculus'')
            = (0, 0, 0)"
    by (simp add: init_db_ejemplo consulta_profesor_def tabla_db_ejemplo agrupar_Nil conteo_Nil)
  show ?thesis
    using h1 h2 registrar_asistencia_incrementa [OF h1 h2, of None fecha_ejemplo]
    by (simp add: h3)
qed

text \<open>
  C2. With the professor \<^verbatim>\<open>"Otro maestro"\<close>, registration succeeds whatever the
  roster, the subject, the program, the date and the attendance value are, and appends
  the record as given.
\<close>

theorem registrar_asistencia_otro_maestro:
  "fst (registrar_asistencia s Otro_maestro m c d a) = Inr () \<and>
   tabla_asistencia (conn (snd (registrar_asistencia s Otro_maestro m c d a))) =
     tabla_asistencia (conn s) @
       [\<lparr>id_asistencia = Suc (secuencia (conn s)), profesor = Otro_maestro, materia = m,
         carrera = c, fecha = isoformat d, asistio = a\<rparr>]"
  by (simp add: registrar_asistencia_def tabla_registrar)

text \<open>
  C3, as amended. For a professor of the roster other than \<^verbatim>\<open>"Otro maestro"\<close>,
  registration fails with \<open>SubjectMismatch\<close> exactly when the given subject is not the
  one the roster assigns to the professor.
\<close>

theorem registrar_asistencia_subject_mismatch:
  assumes "p \<in> set (profesores s)" and "p \<noteq> Otro_maestro"
  shows "(fst (registrar_asistencia s p m c d a) = Inl SubjectMismatch)
         = (dict_get (profesor_materia s) p \<noteq> Some m)"
  using assms by (simp add: registrar_asistencia_def)

theorem registrar_asistencia_subject_mismatch_witness:
  "''Dr. Smith'' \<in> set (profesores (init db_ejemplo)) \<and> ''Dr. Smith'' \<noteq> Otro_maestro \<and>
   dict_get (profesor_materia (init db_ejemplo)) ''Dr. Smith'' \<noteq> Some ''Physics'' \<and>
   fst (registrar_asistencia (init db_ejemplo) ''Dr. Smith'' ''Physics'' None fecha_ejemplo Si)
     = Inl SubjectMismatch"
proof -
  have h1: "''Dr. Smith'' \<in> set (profesores (init db_ejemplo))"
    by (simp add: init_db_ejemplo)
  have h2: "''Dr. Smith'' \<noteq> Otro_maestro"
    by (simp add: Otro_maestro_def)
  have h3: "dict_get (profesor_materia (init db_ejemplo)) ''Dr. Smith'' \<noteq> Some ''Physics''"
    by (simp add: init_db_ejemplo dict_get_def)
  show ?thesis
    using h1 h2 h3
      registrar_asistencia_subject_mismatch [OF h1 h2, of "''Physics''" None fecha_ejemplo Si]
    by simp
qed

text \<open>
  C3, as stated, fails when the roster itself has a professor named
  \<^verbatim>\<open>"Otro maestro"\<close>: the roster assigns Calculus, the call gives Physics, and the
  registration succeeds.
\<close>

theorem registrar_asistencia_subject_mismatch_counterexample:
  "''Otro maestro'' \<in> set (profesores (init db_centinela)) \<and>
   dict_get (profesor_materia (init db_centinela)) ''Otro maestro'' = Some ''Calculus'' \<and>
   ''Physics'' \<noteq> ''Calculus'' \<and>
   fst (registrar_asistencia (init db_centinela) ''Otro maestro'' ''Physics'' None fecha_ejemplo Si)
     \<noteq> Inl SubjectMismatch \<and>
   fst (registrar_asistencia (init db_centinela) ''Otro maestro'' ''Physics'' None fecha_ejemplo Si)
     = Inr ()"
  by (simp add: init_db_centinela dict_get_def registrar_asistencia_def Otro_maestro_def)

text \<open>
  C4. A professor that is neither \<^verbatim>\<open>"Otro maestro"\<close> nor in the roster is rejected
  with \<open>UnknownProfessor\<close>, whatever the other arguments are.
\<close>

theorem registrar_asistencia_unknown_professor:
  assumes "p \<noteq> Otro_maestro" and "p \<notin> set (profesores s)"
  shows "registrar_asistencia s p m c d a = (Inl UnknownProfessor, s)"
  using assms by (simp add: registrar_asistencia_def)

theorem registrar_asistencia_unknown_professor_witness:
  "''Dr. Jones'' \<noteq> Otro_maestro \<and> ''Dr. Jones'' \<notin> set (profesores (init db_ejemplo)) \<and>
   registrar_asistencia (init db_ejemplo) ''Dr. Jones'' ''Calculus'' None fecha_ejemplo Si
     = (Inl UnknownProfessor, init db_ejemplo)"
proof -
  have h1: "''Dr. Jones'' \<noteq> Otro_maestro"
    by (simp add: Otro_maestro_def)
  have h2: "''Dr. Jones'' \<notin> set (profesores (init db_ejemplo))"
    by (simp add: init_db_ejemplo)
  show ?thesis
    using h1 h2
      registrar_asistencia_unknown_professor [OF h1 h2, of "''Calculus''" None fecha_ejemplo Si]
    by simp
qed

text \<open>
  C5. When registration fails, the error is one of the two validation errors and the
  object after the call, with its database, is the object before it.
\<close>

theorem registrar_asistencia_atomic:
  assumes "fst (registrar_asistencia s p m c d a) = Inl e"
  shows "snd (registrar_asistencia s p m c d a) = s \<and> (e = UnknownProfessor \<or> e = SubjectMismatch)"
  using assms by (auto simp: registrar_asistencia_def split: if_splits)

theorem registrar_asistencia_atomic_witness:
  "fst (registrar_asistencia (init db_ejemplo) ''Dr. Smith'' ''Physics'' None fecha_ejemplo Si)
     = Inl SubjectMismatch \<and>
   snd (registrar_asistencia (init db_ejemplo) ''Dr. Smith'' ''Physics'' None fecha_ejemplo Si)
     = init db_ejemplo"
proof -
  have h: "fst (registrar_asistencia (init db_ejemplo) ''Dr. Smith'' ''Physics'' None fecha_ejemplo Si)
     = Inl SubjectMismatch"
    by (simp add: registrar_asistencia_def init_db_ejemplo dict_get_def Otro_maestro_def)
  show ?thesis
    using h registrar_asistencia_atomic [OF h] by simp
qed

subsection \<open>Deleting all records\<close>

text \<open>
  C9. After \<^verbatim>\<open>eliminar_registros\<close>, the per-professor query, the per-subject query
  and the global query give no rows, whatever their arguments are.
\<close>

theorem eliminar_registros_consultas:
  "consulta_profesor (conn (eliminar_registros s)) p inicio fin = [] \<and>
   consulta_materia (conn (eliminar_registros s)) m inicio fin = [] \<and>
   consulta_global (conn (eliminar_registros s)) = []"
  by (simp add: eliminar_registros_def consulta_profesor_def consulta_materia_def
      consulta_global_def agrupar_Nil)

subsection \<open>The queries\<close>

lemma iso_fecha_ejemplo: "isoformat fecha_ejemplo = ''2024-01-10''"
  by (simp add: isoformat_def digit_def fecha_ejemplo_def)

lemma secuencia_db_ejemplo: "secuencia db_ejemplo = 0"
  by (simp add: db_ejemplo_def)

lemma sistema_registrado_eq:
  "sistema_registrado =
     \<lparr>conn = db_ejemplo\<lparr>tabla_asistencia :=
               [\<lparr>id_asistencia = 1, profesor = ''Dr. Smith'', materia = ''Calculus'',
                 carrera = None, fecha = ''2024-01-10'', asistio = Si\<rparr>],
             secuencia := 1\<rparr>,
      profesores = [''Dr. Smith'', ''Dra. Ruiz''],
      materias = [''Calculus'', ''Physics''], carreras = [''IAS''],
      profesor_materia = [(''Dr. Smith'', ''Calculus''), (''Dra. Ruiz'', ''Calculus'')]\<rparr>"
  by (simp add: sistema_registrado_def registrar_asistencia_def init_db_ejemplo dict_get_def
      Otro_maestro_def registrar_def insert_asistencia_def iso_fecha_ejemplo tabla_db_ejemplo
      secuencia_db_ejemplo)

lemma consulta_profesor_registrado:
  "consulta_profesor (conn sistema_registrado) ''Dr. Smith'' ''2024-01-10'' ''2024-01-10''
     = [(None, ''Dr. Smith'', ''Calculus'', 1, 1, 0)]"
  by (simp add: sistema_registrado_eq consulta_profesor_def sql_between_def agrupar_def
      registro_de_def clave_de_def grupo_def suma_caso_def Si_def No_def)

lemma consulta_materia_registrado:
  "consulta_materia (conn sistema_registrado) ''Calculus'' ''2024-01-10'' ''2024-01-10''
     = [(None, ''Dr. Smith'', ''Calculus'', 1, 1, 0)]"
  by (simp add: sistema_registrado_eq consulta_materia_def sql_between_def agrupar_def
      registro_de_def clave_de_def grupo_def suma_caso_def Si_def No_def)

lemma consulta_global_registrado:
  "consulta_global (conn sistema_registrado) = [(None, 1, Tasa 1 1)]"
  by (simp add: sistema_registrado_eq consulta_global_def estadistica_de_def grupo_carrera_def
      suma_caso_def)

lemma consultas_db_ejemplo:
  "consulta_profesor (conn (init db_ejemplo)) p a b = []"
  "consulta_materia (conn (init db_ejemplo)) m a b = []"
  "consulta_global (conn (init db_ejemplo)) = []"
  by (simp_all add: init_db_ejemplo consulta_profesor_def consulta_materia_def
      consulta_global_def tabla_db_ejemplo agrupar_Nil)

text \<open>
  C7. In the per-professor report over \<open>[inicio, fin]\<close>, the row of a key counts exactly
  the stored records of that key whose professor is the queried one and whose date text
  is at least \<open>inicio\<close> and at most \<open>fin\<close> in the order of texts; the totals of all rows add
  up to the number of such records, and no key has two rows. The same holds for the
  per-subject report with the subject in place of the professor.
\<close>

theorem consulta_filtro:
  "conteo (consulta_profesor db p inicio fin) k =
     (length (filter (\<lambda>r. clave_de r = k \<and> profesor r = p \<and> texto_le inicio (fecha r) \<and> texto_le (fecha r) fin) (tabla_asistencia db)),
      suma_caso Si (filter (\<lambda>r. clave_de r = k \<and> profesor r = p \<and> texto_le inicio (fecha r) \<and> texto_le (fecha r) fin) (tabla_asistencia db)),
      suma_caso No (filter (\<lambda>r. clave_de r = k \<and> profesor r = p \<and> texto_le inicio (fecha r) \<and> texto_le (fecha r) fin) (tabla_asistencia db))) \<and>
   sum_list (map total_clases (consulta_profesor db p inicio fin)) =
     length (filter (\<lambda>r. profesor r = p \<and> texto_le inicio (fecha r) \<and> texto_le (fecha r) fin) (tabla_asistencia db)) \<and>
   distinct (map clave_registro (consulta_profesor db p inicio fin)) \<and>
   conteo (consulta_materia db m inicio fin) k =
     (length (filter (\<lambda>r. clave_de r = k \<and> materia r = m \<and> texto_le inicio (fecha r) \<and> texto_le (fecha r) fin) (tabla_asistencia db)),
      suma_caso Si (filter (\<lambda>r. clave_de r = k \<and> materia r = m \<and> texto_le inicio (fecha r) \<and> texto_le (fecha r) fin) (tabla_asistencia db)),
      suma_caso No (filter (\<lambda>r. clave_de r = k \<and> materia r = m \<and> texto_le inicio (fecha r) \<and> texto_le (fecha r) fin) (tabla_asistencia db))) \<and>
   sum_list (map total_clases (consulta_materia db m inicio fin)) =
     length (filter (\<lambda>r. materia r = m \<and> texto_le inicio (fecha r) \<and> texto_le (fecha r) fin) (tabla_asistencia db)) \<and>
   distinct (map clave_registro (consulta_materia db m inicio fin))"
  by (simp add: consulta_profesor_def consulta_materia_def conteo_agrupar grupo_filter
      total_agrupar distinct_claves_agrupar sql_between_def)

text \<open>
  The rows of the global statistics: one row for each program that has records, with the
  number of its records and the rate computed from the number of its attended records
  and the number of its records. A program without records has no row.
\<close>

lemma consulta_global_filas:
  "set (consulta_global db) =
     {(c, n, t). 0 < n \<and> n = length (grupo_carrera c (tabla_asistencia db)) \<and>
                 t = Tasa (suma_caso Si (grupo_carrera c (tabla_asistencia db))) n}"
proof -
  have "c \<in> carrera ` set rs \<longleftrightarrow> 0 < length (grupo_carrera c rs)" for c and rs :: "fila_asistencia list"
    by (auto simp: grupo_carrera_def filter_empty_conv)
  then show ?thesis
    by (auto simp: consulta_global_def estadistica_de_def)
qed

lemma consulta_global_distinct: "distinct (map fst (consulta_global db))"
  by (simp add: consulta_global_def estadistica_de_def comp_def)

subsection \<open>The report buttons\<close>

lemma generar_reporte_pdf_escribe:
  "generar_reporte_pdf datos columnas fi ff nombre fs nombre \<noteq> None"
  by (simp add: generar_reporte_pdf_def)

text \<open>
  C8. Each of the three report buttons, when its query gives no rows, leaves the files as
  they were and answers \<open>EmptyResultSet\<close> (the warning); when the query gives rows it
  answers with the name of its file, and that file exists afterwards.
\<close>

theorem boton_reporte_sin_registros:
  "(consulta_profesor (conn s) p (isoformat inicio) (isoformat fin) = [] \<longrightarrow>
      boton_reporte_profesor_pdf s p inicio fin fs = (Inl EmptyResultSet, fs)) \<and>
   (consulta_profesor (conn s) p (isoformat inicio) (isoformat fin) \<noteq> [] \<longrightarrow>
      fst (boton_reporte_profesor_pdf s p inicio fin fs) = Inr ''reporte_asistencia_profesor.pdf'' \<and>
      snd (boton_reporte_profesor_pdf s p inicio fin fs) ''reporte_asistencia_profesor.pdf'' \<noteq> None) \<and>
   (consulta_materia (conn s) m (isoformat inicio) (isoformat fin) = [] \<longrightarrow>
      boton_reporte_materia_pdf s m inicio fin fs = (Inl EmptyResultSet, fs)) \<and>
   (consulta_materia (conn s) m (isoformat inicio) (isoformat fin) \<noteq> [] \<longrightarrow>
      fst (boton_reporte_materia_pdf s m inicio fin fs) = Inr ''reporte_asistencia_materia.pdf'' \<and>
      snd (boton_reporte_materia_pdf s m inicio fin fs) ''reporte_asistencia_materia.pdf'' \<noteq> None) \<and>
   (consulta_global (conn s) = [] \<longrightarrow>
      boton_reporte_carrera_pdf s fs = (Inl EmptyResultSet, fs)) \<and>
   (consulta_global (conn s) \<noteq> [] \<longrightarrow>
      fst (boton_reporte_carrera_pdf s fs) = Inr ''reporte_global_carrera.pdf'' \<and>
      snd (boton_reporte_carrera_pdf s fs) ''reporte_global_carrera.pdf'' \<noteq> None)"
  by (simp add: boton_reporte_profesor_pdf_def boton_reporte_materia_pdf_def
      boton_reporte_carrera_pdf_def Let_def generar_reporte_pdf_escribe)

theorem boton_reporte_sin_registros_witness:
  "consulta_profesor (conn (init db_ejemplo)) ''Dr. Smith''
     (isoformat fecha_ejemplo) (isoformat fecha_ejemplo) = [] \<and>
   boton_reporte_profesor_pdf (init db_ejemplo) ''Dr. Smith'' fecha_ejemplo fecha_ejemplo Map.empty
     = (Inl EmptyResultSet, Map.empty) \<and>
   consulta_materia (conn (init db_ejemplo)) ''Calculus''
     (isoformat fecha_ejemplo) (isoformat fecha_ejemplo) = [] \<and>
   boton_reporte_materia_pdf (init db_ejemplo) ''Calculus'' fecha_ejemplo fecha_ejemplo Map.empty
     = (Inl EmptyResultSet, Map.empty) \<and>
   consulta_global (conn (init db_ejemplo)) = [] \<and>
   boton_reporte_carrera_pdf (init db_ejemplo) Map.empty = (Inl EmptyResultSet, Map.empty) \<and>
   consulta_profesor (conn sistema_registrado) ''Dr. Smith''
     (isoformat fecha_ejemplo) (isoformat fecha_ejemplo) \<noteq> [] \<and>
   fst (boton_reporte_profesor_pdf sistema_registrado ''Dr. Smith'' fecha_ejemplo fecha_ejemplo
          Map.empty) = Inr ''reporte_asistencia_profesor.pdf'' \<and>
   snd (boton_reporte_profesor_pdf sistema_registrado ''Dr. Smith'' fecha_ejemplo fecha_ejemplo
          Map.empty) ''reporte_asistencia_profesor.pdf'' \<noteq> None \<and>
   consulta_materia (conn sistema_registrado) ''Calculus''
     (isoformat fecha_ejemplo) (isoformat fecha_ejemplo) \<noteq> [] \<and>
   fst (boton_reporte_materia_pdf sistema_registrado ''Calculus'' fecha_ejemplo fecha_ejemplo
          Map.empty) = Inr ''reporte_asistencia_materia.pdf'' \<and>
   snd (boton_reporte_materia_pdf sistema_registrado ''Calculus'' fecha_ejemplo fecha_ejemplo
          Map.empty) ''reporte_asistencia_materia.pdf'' \<noteq> None \<and>
   consulta_global (conn sistema_registrado) \<noteq> [] \<and>
   fst (boton_reporte_carrera_pdf sistema_registrado Map.empty) = Inr ''reporte_global_carrera.pdf'' \<and>
   snd (boton_reporte_carrera_pdf sistema_registrado Map.empty) ''reporte_global_carrera.pdf'' \<noteq> None"
proof -
  have e1: "consulta_profesor (conn (init db_ejemplo)) ''Dr. Smith''
              (isoformat fecha_ejemplo) (isoformat fecha_ejemplo) = []"
    and e2: "consulta_materia (conn (init db_ejemplo)) ''Calculus''
              (isoformat fecha_ejemplo) (isoformat fecha_ejemplo) = []"
    and e3: "consulta_global (conn (init db_ejemplo)) = []"
    by (rule consultas_db_ejemplo)+
  have n1: "consulta_profesor (conn sistema_registrado) ''Dr. Smith''
              (isoformat fecha_ejemplo) (isoformat fecha_ejemplo) \<noteq> []"
    by (simp add: iso_fecha_ejemplo consulta_profesor_registrado)
  have n2: "consulta_materia (conn sistema_registrado) ''Calculus''
              (isoformat fecha_ejemplo) (isoformat fecha_ejemplo) \<noteq> []"
    by (simp add: iso_fecha_ejemplo consulta_materia_registrado)
  have n3: "consulta_global (conn sistema_registrado) \<noteq> []"
    by (simp add: consulta_global_registrado)
  show ?thesis
    using e1 e2 e3 n1 n2 n3
      boton_reporte_sin_registros [of "init db_ejemplo" "''Dr. Smith''" fecha_ejemplo fecha_ejemplo
        Map.empty "''Calculus''"]
      boton_reporte_sin_registros [of sistema_registrado "''Dr. Smith''" fecha_ejemplo fecha_ejemplo
        Map.empty "''Calculus''"]
    by simp
qed

subsection \<open>Loading the roster\<close>

lemma map_of_dict_set: "map_of (dict_set d k v) = (map_of d)(k \<mapsto> v)"
  by (induction d k v rule: dict_set.induct) (auto simp: fun_eq_iff)

lemma keys_dict_set: "set (map fst (dict_set d k v)) = insert k (set (map fst d))"
  by (induction d k v rule: dict_set.induct) auto

lemma distinct_dict_set: "distinct (map fst d) \<Longrightarrow> distinct (map fst (dict_set d k v))"
  by (induction d k v rule: dict_set.induct) (auto simp: keys_dict_set simp del: set_map)

text \<open>Filling a dictionary row by row: a later row overrides an earlier one with the same key.\<close>

lemma map_of_foldl_dict_set:
  "map_of (foldl (\<lambda>d row. dict_set d (fst row) (snd row)) d rows) = map_of d ++ map_of (rev rows)"
proof (induction rows arbitrary: d)
  case Nil
  then show ?case by simp
next
  case (Cons row rows)
  have "map_of (dict_set d (fst row) (snd row)) ++ map_of (rev rows)
        = map_of d ++ (map_of [row] ++ map_of (rev rows))"
    by (cases row) (simp add: map_of_dict_set fun_eq_iff map_add_def split: option.splits)
  then show ?case
    by (simp add: Cons.IH)
qed

lemma distinct_foldl_dict_set:
  "distinct (map fst d) \<Longrightarrow>
   distinct (map fst (foldl (\<lambda>d row. dict_set d (fst row) (snd row)) d rows))"
  by (induction rows arbitrary: d) (simp_all add: distinct_dict_set)

lemma map_of_rev_last:
  "map_of (rev rows) p =
     (case filter (\<lambda>r. fst r = p) rows of [] \<Rightarrow> None | x # xs \<Rightarrow> Some (snd (last (x # xs))))"
proof (induction rows rule: rev_induct)
  case Nil
  then show ?case by simp
next
  case (snoc r rows)
  then show ?case
    by (cases r) (auto split: list.splits)
qed

lemma dict_get_dict_of_rows:
  "dict_get (dict_of_rows rows) p =
     (case filter (\<lambda>r. fst r = p) rows of [] \<Rightarrow> None | x # xs \<Rightarrow> Some (snd (last (x # xs))))"
  by (simp add: dict_get_def dict_of_rows_def map_of_foldl_dict_set map_of_rev_last)

lemma distinct_dict_of_rows: "distinct (map fst (dict_of_rows rows))"
  unfolding dict_of_rows_def by (rule distinct_foldl_dict_set) simp

lemma dom_dict_get: "dom (dict_get d) = set (map fst d)"
proof -
  have "dict_get d = map_of d"
    by (simp add: fun_eq_iff dict_get_def)
  then show ?thesis
    by (simp add: dom_map_of_conv_image_fst)
qed

text \<open>
  C10. The professors list that \<^verbatim>\<open>cargar_datos\<close> returns is the list of keys of the
  returned assignment dictionary, without repetition, so the professors are exactly the
  names that have an assigned subject; and the subject the dictionary gives for a name
  is the subject of the last row of the join with that name (none when there is no such
  row), whatever the earlier rows with that name say.
\<close>

theorem cargar_datos_profesores:
  "(case cargar_datos db of (ps, ms, cs, pm) \<Rightarrow>
      ps = dict_keys pm \<and> distinct ps \<and> set ps = dom (dict_get pm) \<and>
      dict_get pm p =
        (case filter (\<lambda>r. fst r = p) (relacion_profesor_materia db) of
           [] \<Rightarrow> None
         | x # xs \<Rightarrow> Some (snd (last (x # xs)))))"
  by (simp add: cargar_datos_def Let_def dict_keys_def distinct_dict_of_rows dom_dict_get
      dict_get_dict_of_rows)

text \<open>In the example Dra. Ruiz is related to Physics and to Calculus; the roster keeps Calculus.\<close>

theorem cargar_datos_profesores_witness:
  "relacion_profesor_materia db_ejemplo =
     [(''Dr. Smith'', ''Calculus''), (''Dra. Ruiz'', ''Physics''), (''Dra. Ruiz'', ''Calculus'')] \<and>
   profesores (init db_ejemplo) = [''Dr. Smith'', ''Dra. Ruiz''] \<and>
   dict_get (profesor_materia (init db_ejemplo)) ''Dra. Ruiz'' = Some ''Calculus''"
proof -
  have h: "relacion_profesor_materia db_ejemplo =
     [(''Dr. Smith'', ''Calculus''), (''Dra. Ruiz'', ''Physics''), (''Dra. Ruiz'', ''Calculus'')]"
    by (simp add: relacion_profesor_materia_def db_ejemplo_def)
  show ?thesis
    using cargar_datos_profesores [where db = db_ejemplo and p = "''Dra. Ruiz''"]
    by (simp add: h init_db_ejemplo dict_get_def split: prod.splits)
qed

end
